theory Spec2Isabelle
  imports Main "HOL-Library.AList" "HOL-Library.Word"
begin

section \<open>JavaScript values\<close>

text \<open>
  The values that reach \<open>errors.ts\<close> from its callers: the \<open>details\<close> argument of the
  \<open>McpError\<close> constructor (\<open>Record<string, unknown>\<close>) and the untyped input of
  \<open>ErrorSchema\<close>.

  \<^item> A number is \<open>JNum negative magnitude\<close>, an integer of magnitude below \<open>2^53\<close> (the
    safe integers, and \<open>-0\<close>), or \<open>JNaN\<close>, or \<open>JInfinity negative\<close>. Fractions and the
    integers beyond \<open>2^53\<close> are left out: their text is a matter of floating point.
  \<^item> A string is a list of 8-bit characters (code units below 256).
  \<^item> A function is what a call of it as a method does (\<open>call_behaviour\<close>): it returns a
    value, or throws, or reads and advances the external state.
  \<^item> An object is the list of its own enumerable string-keyed data properties, in the
    order in which the runtime enumerates them (\<open>Object.keys\<close>, \<open>for ... in\<close>,
    \<open>JSON.stringify\<close>); its keys are distinct, and the definitions, which are total on
    lists, read the first binding of a key. \<open>JObj\<close> is an ordinary object, \<open>JInstance\<close>
    an instance of \<open>Map\<close> or \<open>Set\<close> with its own properties, \<open>JDate\<close> a \<open>Date\<close>, given
    by its ISO text (\<open>None\<close>: an invalid date), with no property of its own.
  \<^item> Values are trees: an object that contains itself has no representation. An object
    inherits from the built-in prototype of its kind only, and an array has no property
    besides its elements. Accessor properties, proxies, symbol keys, wrapper objects
    (\<open>new Number(1)\<close>) and changes to the built-in prototypes are not modelled.
\<close>

datatype js_class = Map_class | Set_class

datatype jsval =
    JUndefined
  | JNull
  | JBool bool
  | JNum bool "53 word"
  | JNaN
  | JInfinity bool
  | JStr string
  | JBigInt int
  | JSymbol
  | JFunction call_behaviour
  | JArr "jsval list"
  | JObj "(string \<times> jsval) list"
  | JInstance js_class "(string \<times> jsval) list"
  | JDate "string option"
and call_behaviour =
    Returns jsval
  | Throws
  | Counts

type_synonym jsobj = "(string \<times> jsval) list"

text \<open>
  The external state: whatever a function of the environment can read and write
  besides its arguments. One counter stands for it.
\<close>

type_synonym world = nat

text \<open>
  An exception: the \<open>TypeError\<close> of the runtime, the \<open>Error\<close> of a library, or what a
  function of the environment throws.
\<close>

datatype js_error = TypeError | LibraryError | Thrown

text \<open>
  \<open>Call(f, thisValue, args)\<close>: the outcome and the external state after the call.
  \<open>Counts\<close> returns the number that the state holds and advances the state.
\<close>

fun Call :: "call_behaviour \<Rightarrow> world \<Rightarrow> (js_error + jsval) \<times> world" where
  "Call (Returns v) w = (Inr v, w)"
| "Call Throws w = (Inl Thrown, w)"
| "Call Counts w = (Inr (JNum False (of_nat w)), Suc w)"

text \<open>\<open>IsCallable\<close>.\<close>

fun IsCallable :: "jsval \<Rightarrow> bool" where
  "IsCallable (JFunction f) = True"
| "IsCallable v = False"

text \<open>The own properties of an object; a value of another kind has none.\<close>

fun own_properties :: "jsval \<Rightarrow> jsobj" where
  "own_properties (JObj ps) = ps"
| "own_properties (JInstance c ps) = ps"
| "own_properties v = []"

text \<open>\<open>obj[key]\<close>: the property's value, \<open>undefined\<close> when the object has no such property.\<close>

definition js_get :: "jsobj \<Rightarrow> string \<Rightarrow> jsval" where
  "js_get obj key = (case map_of obj key of None \<Rightarrow> JUndefined | Some v \<Rightarrow> v)"

text \<open>\<open>key in obj\<close>.\<close>

definition js_in :: "string \<Rightarrow> jsobj \<Rightarrow> bool" where
  "js_in key obj = (map_of obj key \<noteq> None)"

text \<open>\<open>ToBoolean\<close>, the truthiness that \<open>cond ? a : b\<close> tests.\<close>

fun ToBoolean :: "jsval \<Rightarrow> bool" where
  "ToBoolean JUndefined = False"
| "ToBoolean JNull = False"
| "ToBoolean (JBool b) = b"
| "ToBoolean (JNum negative magnitude) = (magnitude \<noteq> 0)"
| "ToBoolean JNaN = False"
| "ToBoolean (JInfinity negative) = True"
| "ToBoolean (JStr s) = (s \<noteq> [])"
| "ToBoolean (JBigInt n) = (n \<noteq> 0)"
| "ToBoolean JSymbol = True"
| "ToBoolean (JFunction f) = True"
| "ToBoolean (JArr xs) = True"
| "ToBoolean (JObj ps) = True"
| "ToBoolean (JInstance c ps) = True"
| "ToBoolean (JDate d) = True"

section \<open>\<open>JSON.stringify\<close>\<close>

text \<open>
  \<open>toResponse\<close> calls \<open>JSON.stringify(this.details, null, 2)\<close>. The functions below follow
  the algorithm of ECMA-262 (\<open>JSON.stringify\<close>, \<open>SerializeJSONProperty\<close>,
  \<open>SerializeJSONObject\<close>, \<open>SerializeJSONArray\<close>, \<open>QuoteJSONString\<close>) for a \<open>null\<close>
  replacer: the state of the algorithm is the pair of the \<open>gap\<close> and the current
  \<open>indent\<close>, and the external state is passed through the calls.
\<close>

definition hex_digit :: "nat \<Rightarrow> char" where
  "hex_digit n = ''0123456789abcdef'' ! (n mod 16)"

text \<open>\<open>UnicodeEscape\<close>: \<open>\u\<close> and four lower-case hexadecimal digits.\<close>

definition UnicodeEscape :: "char \<Rightarrow> string" where
  "UnicodeEscape c =
     [CHR 0x5C, CHR ''u'', CHR ''0'', CHR ''0'',
      hex_digit (of_char c div 16), hex_digit (of_char c mod 16)]"

definition quote_char :: "char \<Rightarrow> string" where
  "quote_char c =
     (if c = CHR 0x08 then [CHR 0x5C, CHR ''b'']
      else if c = CHR 0x09 then [CHR 0x5C, CHR ''t'']
      else if c = CHR 0x0A then [CHR 0x5C, CHR ''n'']
      else if c = CHR 0x0C then [CHR 0x5C, CHR ''f'']
      else if c = CHR 0x0D then [CHR 0x5C, CHR ''r'']
      else if c = CHR 0x22 then [CHR 0x5C, CHR 0x22]
      else if c = CHR 0x5C then [CHR 0x5C, CHR 0x5C]
      else if (of_char c :: nat) < 0x20 then UnicodeEscape c
      else [c])"

definition QuoteJSONString :: "string \<Rightarrow> string" where
  "QuoteJSONString s = [CHR 0x22] @ concat (map quote_char s) @ [CHR 0x22]"

text \<open>
  \<open>Number::toString\<close> of an integer of magnitude below \<open>2^53\<close>: the decimal numeral,
  with the sign of a negative number other than \<open>-0\<close>.
\<close>

fun nat_digits :: "nat \<Rightarrow> string" where
  "nat_digits n =
     (if n < 10 then [''0123456789'' ! n]
      else nat_digits (n div 10) @ [''0123456789'' ! (n mod 10)])"

definition Number_toString :: "bool \<Rightarrow> 53 word \<Rightarrow> string" where
  "Number_toString negative magnitude =
     (if negative \<and> magnitude \<noteq> 0 then CHR ''-'' # nat_digits (unat magnitude)
      else nat_digits (unat magnitude))"

text \<open>Joining the members of \<open>partial\<close> with a separator.\<close>

fun join :: "string \<Rightarrow> string list \<Rightarrow> string" where
  "join sep [] = []"
| "join sep [x] = x"
| "join sep (x # y # ys) = x @ sep @ join sep (y # ys)"

text \<open>
  The last steps of \<open>SerializeJSONObject\<close> and \<open>SerializeJSONArray\<close>: from the serialized
  members to the text between the brackets \<open>l\<close> and \<open>r\<close>. \<open>stepback\<close> is the indent of the
  enclosing level, \<open>indent\<close> the indent of the members.
\<close>

definition wrap_partial :: "string \<Rightarrow> string \<Rightarrow> string \<Rightarrow> string \<Rightarrow> string \<Rightarrow> string list \<Rightarrow> string" where
  "wrap_partial l r gap stepback indent partial =
     (if partial = [] then l @ r
      else if gap = [] then l @ join '','' partial @ r
      else l @ [CHR 0x0A] @ indent @ join ('','' @ [CHR 0x0A] @ indent) partial
           @ [CHR 0x0A] @ stepback @ r)"

text \<open>
  \<open>GetV(value, "toJSON")\<close>, when it is callable: the own property \<open>toJSON\<close> of an object,
  and \<open>Date.prototype.toJSON\<close> for a \<open>Date\<close>, which returns the ISO text of the date, or
  \<open>null\<close> for an invalid date. The other prototypes have no \<open>toJSON\<close>.
\<close>

fun toJSON_method :: "jsval \<Rightarrow> call_behaviour option" where
  "toJSON_method (JObj ps) =
     (case js_get ps ''toJSON'' of JFunction f \<Rightarrow> Some f | _ \<Rightarrow> None)"
| "toJSON_method (JInstance c ps) =
     (case js_get ps ''toJSON'' of JFunction f \<Rightarrow> Some f | _ \<Rightarrow> None)"
| "toJSON_method (JDate d) =
     Some (Returns (case d of None \<Rightarrow> JNull | Some isoText \<Rightarrow> JStr isoText))"
| "toJSON_method v = None"

text \<open>
  \<open>SerializeJSONProperty gap indent value w\<close> is the result of the abstract operation
  on a property whose value is \<open>value\<close>, in the external state \<open>w\<close>, with the external
  state after it: \<open>Inl\<close> when it throws, \<open>Inr None\<close> when the result is \<open>undefined\<close> and
  \<open>Inr (Some text)\<close> otherwise. Its second step calls the \<open>toJSON\<close> method of the value;
  \<open>SerializeJSONValue\<close> is the rest of the operation, on the value or on what the method
  returned. \<open>SerializeJSONObject_members\<close> is the loop over the keys of an object, which
  drops the members whose value serializes to \<open>undefined\<close>; \<open>SerializeJSONArray_elements\<close>
  is the loop over the indices of an array, where such an element is written \<open>null\<close>.
\<close>

function (sequential)
  SerializeJSONProperty ::
    "string \<Rightarrow> string \<Rightarrow> jsval \<Rightarrow> world \<Rightarrow> (js_error + string option) \<times> world"
and SerializeJSONValue ::
    "string \<Rightarrow> string \<Rightarrow> jsval \<Rightarrow> world \<Rightarrow> (js_error + string option) \<times> world"
and SerializeJSONObject_members ::
    "string \<Rightarrow> string \<Rightarrow> jsobj \<Rightarrow> world \<Rightarrow> (js_error + string list) \<times> world"
and SerializeJSONArray_elements ::
    "string \<Rightarrow> string \<Rightarrow> jsval list \<Rightarrow> world \<Rightarrow> (js_error + string list) \<times> world"
where
  "SerializeJSONProperty gap indent v w =
     (case toJSON_method v of
        None \<Rightarrow> SerializeJSONValue gap indent v w
      | Some toJSON \<Rightarrow>
          (case Call toJSON w of
             (Inl err, w') \<Rightarrow> (Inl err, w')
           | (Inr r, w') \<Rightarrow> SerializeJSONValue gap indent r w'))"
| "SerializeJSONValue gap indent JNull w = (Inr (Some ''null''), w)"
| "SerializeJSONValue gap indent (JBool b) w =
     (Inr (Some (if b then ''true'' else ''false'')), w)"
| "SerializeJSONValue gap indent (JStr s) w = (Inr (Some (QuoteJSONString s)), w)"
| "SerializeJSONValue gap indent (JNum negative magnitude) w =
     (Inr (Some (Number_toString negative magnitude)), w)"
| "SerializeJSONValue gap indent JNaN w = (Inr (Some ''null''), w)"
| "SerializeJSONValue gap indent (JInfinity negative) w = (Inr (Some ''null''), w)"
| "SerializeJSONValue gap indent (JBigInt n) w = (Inl TypeError, w)"
| "SerializeJSONValue gap indent (JArr xs) w =
     (case SerializeJSONArray_elements gap (indent @ gap) xs w of
        (Inl err, w') \<Rightarrow> (Inl err, w')
      | (Inr partial, w') \<Rightarrow>
          (Inr (Some (wrap_partial ''['' '']'' gap indent (indent @ gap) partial)), w'))"
| "SerializeJSONValue gap indent (JObj ps) w =
     (case SerializeJSONObject_members gap (indent @ gap) ps w of
        (Inl err, w') \<Rightarrow> (Inl err, w')
      | (Inr partial, w') \<Rightarrow>
          (Inr (Some (wrap_partial ''{'' ''}'' gap indent (indent @ gap) partial)), w'))"
| "SerializeJSONValue gap indent (JInstance c ps) w =
     (case SerializeJSONObject_members gap (indent @ gap) ps w of
        (Inl err, w') \<Rightarrow> (Inl err, w')
      | (Inr partial, w') \<Rightarrow>
          (Inr (Some (wrap_partial ''{'' ''}'' gap indent (indent @ gap) partial)), w'))"
| "SerializeJSONValue gap indent (JDate d) w =
     (Inr (Some (wrap_partial ''{'' ''}'' gap indent (indent @ gap) [])), w)"
| "SerializeJSONValue gap indent JUndefined w = (Inr None, w)"
| "SerializeJSONValue gap indent (JFunction f) w = (Inr None, w)"
| "SerializeJSONValue gap indent JSymbol w = (Inr None, w)"
| "SerializeJSONObject_members gap indent [] w = (Inr [], w)"
| "SerializeJSONObject_members gap indent ((P, v) # ps) w =
     (case SerializeJSONProperty gap indent v w of
        (Inl err, w') \<Rightarrow> (Inl err, w')
      | (Inr strP, w') \<Rightarrow>
          (case SerializeJSONObject_members gap indent ps w' of
             (Inl err, w'') \<Rightarrow> (Inl err, w'')
           | (Inr partial, w'') \<Rightarrow>
               (Inr ((case strP of
                        None \<Rightarrow> []
                      | Some str \<Rightarrow>
                          [QuoteJSONString P @ '':'' @ (if gap = [] then [] else '' '') @ str])
                     @ partial), w'')))"
| "SerializeJSONArray_elements gap indent [] w = (Inr [], w)"
| "SerializeJSONArray_elements gap indent (v # vs) w =
     (case SerializeJSONProperty gap indent v w of
        (Inl err, w') \<Rightarrow> (Inl err, w')
      | (Inr strP, w') \<Rightarrow>
          (case SerializeJSONArray_elements gap indent vs w' of
             (Inl err, w'') \<Rightarrow> (Inl err, w'')
           | (Inr partial, w'') \<Rightarrow>
               (Inr ((case strP of None \<Rightarrow> ''null'' | Some str \<Rightarrow> str) # partial), w'')))"
  by pat_completeness auto
termination
proof -
  have lookup: "size f < size_list (size_prod (\<lambda>k. 0) size) ps"
    if "map_of ps k = Some (JFunction f)" for ps :: jsobj and k f
    using that by (induction ps) (auto split: if_splits)
  have result: "size b \<le> size f" if "Call f w = (Inr b, y)" for f w b y
    using that by (cases f) auto
  have hook: "size b \<le> size v"
    if "toJSON_method v = Some f" and "(Inr b, y) = Call f w" for v f b y w
  proof (cases v)
    case (JObj ps)
    then show ?thesis
      using that lookup [of ps "''toJSON''" f] result [of f w b y]
      by (auto simp add: js_get_def split: option.splits jsval.splits)
  next
    case (JInstance c ps)
    then show ?thesis
      using that lookup [of ps "''toJSON''" f] result [of f w b y]
      by (auto simp add: js_get_def split: option.splits jsval.splits)
  next
    case (JDate d)
    then show ?thesis using that by (auto split: option.splits)
  qed (use that in simp_all)
  show ?thesis
    by (relation "measure (\<lambda>x. case x of
          Inl (Inl (gap, indent, v, w)) \<Rightarrow> 2 * size v + 1
        | Inl (Inr (gap, indent, v, w)) \<Rightarrow> 2 * size v
        | Inr (Inl (gap, indent, ps, w)) \<Rightarrow> 2 * size_list (size_prod (\<lambda>k. 0) size) ps + 1
        | Inr (Inr (gap, indent, vs, w)) \<Rightarrow> 2 * size_list size vs + 1)")
       (auto dest!: hook)
qed

text \<open>
  \<open>JSON.stringify(value, null, space)\<close> for a numeric \<open>space\<close>: the gap is
  \<open>min(10, space)\<close> spaces and the indent starts empty.
\<close>

definition JSON_stringify ::
    "jsval \<Rightarrow> nat \<Rightarrow> world \<Rightarrow> (js_error + string option) \<times> world" where
  "JSON_stringify v space w =
     SerializeJSONProperty (replicate (min 10 space) CHR '' '') [] v w"

section \<open>The order of the keys of an object\<close>

text \<open>
  \<open>OrdinaryOwnPropertyKeys\<close> of ECMA-262: the keys that are array indices come first, in
  ascending numeric order, then the other string keys in the order of their creation.
  An array index is the canonical numeral of an integer from \<open>0\<close> to \<open>2^32 - 2\<close>
  (\<open>4294967294\<close>).
\<close>

definition digits_value :: "string \<Rightarrow> int" where
  "digits_value s = foldl (\<lambda>n c. 10 * n + (of_char c - 48)) 0 s"

definition is_array_index :: "string \<Rightarrow> bool" where
  "is_array_index P =
     (P \<noteq> [] \<and> list_all (\<lambda>c. c \<in> set ''0123456789'') P
      \<and> (P = ''0'' \<or> hd P \<noteq> CHR ''0'') \<and> digits_value P < 4294967295)"

text \<open>
  \<open>CreateDataProperty(obj, key, value)\<close> on an ordinary object: the value of an existing
  property is replaced where it stands; a new property takes its place in the order of
  the keys, among the array indices by its number, or after every other key. The
  assignment \<open>obj[key] = value\<close> does the same for every key but \<open>__proto__\<close>, which
  \<open>mergeObjectSync\<close> below never assigns.
\<close>

definition js_set :: "jsobj \<Rightarrow> string \<Rightarrow> jsval \<Rightarrow> jsobj" where
  "js_set obj key v =
     (if js_in key obj then AList.update key v obj
      else if is_array_index key
      then insort_key (\<lambda>p. digits_value (fst p)) (key, v)
             (filter (\<lambda>p. is_array_index (fst p)) obj)
           @ filter (\<lambda>p. \<not> is_array_index (fst p)) obj
      else obj @ [(key, v)])"

text \<open>
  \<open>Object.fromEntries(entries)\<close>: the properties are created in the order of the entries.
  It is also the object of the literal \<open>{k1: v1, ..., kn: vn}\<close>, and of an empty object
  after the assignments \<open>obj[k1] = v1; ...; obj[kn] = vn\<close>, when no key is \<open>__proto__\<close>.
\<close>

definition object_from_entries :: "(string \<times> jsval) list \<Rightarrow> jsobj" where
  "object_from_entries entries = foldl (\<lambda>obj (k, v). js_set obj k v) [] entries"

section \<open>The error codes and the error class (\<open>errors.ts\<close>)\<close>

datatype BaseErrorCode =
    UNAUTHORIZED
  | FORBIDDEN
  | NOT_FOUND
  | CONFLICT
  | VALIDATION_ERROR
  | RATE_LIMITED
  | TIMEOUT
  | SERVICE_UNAVAILABLE
  | INTERNAL_ERROR
  | UNKNOWN_ERROR
  | CONFIGURATION_ERROR

text \<open>The string value of each member of the enum.\<close>

fun BaseErrorCode_value :: "BaseErrorCode \<Rightarrow> string" where
  "BaseErrorCode_value UNAUTHORIZED = ''UNAUTHORIZED''"
| "BaseErrorCode_value FORBIDDEN = ''FORBIDDEN''"
| "BaseErrorCode_value NOT_FOUND = ''NOT_FOUND''"
| "BaseErrorCode_value CONFLICT = ''CONFLICT''"
| "BaseErrorCode_value VALIDATION_ERROR = ''VALIDATION_ERROR''"
| "BaseErrorCode_value RATE_LIMITED = ''RATE_LIMITED''"
| "BaseErrorCode_value TIMEOUT = ''TIMEOUT''"
| "BaseErrorCode_value SERVICE_UNAVAILABLE = ''SERVICE_UNAVAILABLE''"
| "BaseErrorCode_value INTERNAL_ERROR = ''INTERNAL_ERROR''"
| "BaseErrorCode_value UNKNOWN_ERROR = ''UNKNOWN_ERROR''"
| "BaseErrorCode_value CONFIGURATION_ERROR = ''CONFIGURATION_ERROR''"

text \<open>The members of the enum object, in the order of their declaration.\<close>

definition BaseErrorCode_members :: "BaseErrorCode list" where
  "BaseErrorCode_members =
     [UNAUTHORIZED, FORBIDDEN, NOT_FOUND, CONFLICT, VALIDATION_ERROR, RATE_LIMITED,
      TIMEOUT, SERVICE_UNAVAILABLE, INTERNAL_ERROR, UNKNOWN_ERROR, CONFIGURATION_ERROR]"

text \<open>
  An instance of \<open>McpError\<close>: \<open>message\<close> is set by \<open>super(message)\<close>, \<open>name\<close> by the
  constructor's assignment, \<open>code\<close> and \<open>details\<close> are the parameter properties.
  \<open>details\<close> is optional: \<open>None\<close> is \<open>undefined\<close>, \<open>Some ps\<close> the ordinary object with the
  properties \<open>ps\<close>.
\<close>

record McpError =
  name :: string
  message :: string
  code :: BaseErrorCode
  details :: "jsobj option"

definition McpError_constructor :: "BaseErrorCode \<Rightarrow> string \<Rightarrow> jsobj option \<Rightarrow> McpError" where
  "McpError_constructor c msg d =
     \<lparr>name = ''McpError'', message = msg, code = c, details = d\<rparr>"

text \<open>\<open>McpContent\<close> and \<open>McpToolResponse\<close>, with the fields that \<open>toResponse\<close> sets.\<close>

record McpContent =
  type' :: string
  text' :: string

record McpToolResponse =
  content :: "McpContent list"
  isError :: bool

text \<open>The value of \<open>this.details\<close>.\<close>

definition details_value :: "McpError \<Rightarrow> jsval" where
  "details_value this = (case details this of None \<Rightarrow> JUndefined | Some ps \<Rightarrow> JObj ps)"

text \<open>\<open>${x}\<close> for the result of \<open>JSON.stringify\<close>: \<open>ToString\<close>, on a string or \<open>undefined\<close>.\<close>

definition template_part :: "string option \<Rightarrow> string" where
  "template_part r = (case r of None \<Rightarrow> ''undefined'' | Some s \<Rightarrow> s)"

text \<open>
  The template literal of \<open>toResponse\<close>, in the external state \<open>w\<close>:
  \<^verbatim>\<open>`Error [${this.code}]: ${this.message}${
      this.details ? `\nDetails: ${JSON.stringify(this.details, null, 2)}` : ''}`\<close>
\<close>

definition errorText :: "McpError \<Rightarrow> world \<Rightarrow> (js_error + string) \<times> world" where
  "errorText this w =
     (case (if ToBoolean (details_value this)
            then (case JSON_stringify (details_value this) 2 w of
                    (Inl err, w') \<Rightarrow> (Inl err, w')
                  | (Inr r, w') \<Rightarrow> (Inr (''\<newline>Details: '' @ template_part r), w'))
            else (Inr [], w)) of
        (Inl err, w') \<Rightarrow> (Inl err, w')
      | (Inr rest, w') \<Rightarrow>
          (Inr (''Error ['' @ BaseErrorCode_value (code this) @ '']: '' @ message this @ rest),
           w'))"

text \<open>
  A call of \<open>toResponse\<close>: what it returned (the response, or the exception that left
  the method), the instance as the call leaves it, and the external state after it.
\<close>

record toResponse_call =
  returned :: "js_error + McpToolResponse"
  this_after :: McpError
  world_after :: world

text \<open>
  \<open>toResponse\<close> is a method of the instance: it takes \<open>this\<close> and the external state.
  The method assigns to no property.
\<close>

definition toResponse :: "McpError \<Rightarrow> world \<Rightarrow> toResponse_call" where
  "toResponse this w =
     (case errorText this w of
        (Inl err, w') \<Rightarrow> \<lparr>returned = Inl err, this_after = this, world_after = w'\<rparr>
      | (Inr errorText', w') \<Rightarrow>
          \<lparr>returned = Inr \<lparr>content = [\<lparr>type' = ''text'', text' = errorText'\<rparr>],
                            isError = True\<rparr>,
           this_after = this, world_after = w'\<rparr>)"

section \<open>The schema library\<close>

text \<open>
  \<open>ErrorSchema\<close> is built from six constructors of the schema library zod (version 3):
  \<open>z.object\<close>, \<open>z.nativeEnum\<close>, \<open>z.string\<close>, \<open>z.record\<close>, \<open>z.unknown\<close> and \<open>.optional()\<close>.
  The library is not part of the repository; each constructor below follows the
  \<open>_parse\<close> method of the library's class of that name, for synchronous parsing with
  the default options.

  \<open>getParsedType\<close> is the library's classification of a value. An object is classified
  in this order: an array; \<open>null\<close>; a promise, which is any object whose \<open>then\<close> and
  \<open>catch\<close> are functions; a \<open>Map\<close>; a \<open>Set\<close>; a \<open>Date\<close>; otherwise an object.
\<close>

datatype ZodParsedType =
    PT_string
  | PT_nan
  | PT_number
  | PT_boolean
  | PT_function
  | PT_bigint
  | PT_symbol
  | PT_undefined
  | PT_null
  | PT_array
  | PT_promise
  | PT_map
  | PT_set
  | PT_date
  | PT_object

definition promise_like :: "jsobj \<Rightarrow> bool" where
  "promise_like ps = (IsCallable (js_get ps ''then'') \<and> IsCallable (js_get ps ''catch''))"

fun getParsedType :: "jsval \<Rightarrow> ZodParsedType" where
  "getParsedType JUndefined = PT_undefined"
| "getParsedType (JStr s) = PT_string"
| "getParsedType JNaN = PT_nan"
| "getParsedType (JNum negative magnitude) = PT_number"
| "getParsedType (JInfinity negative) = PT_number"
| "getParsedType (JBool b) = PT_boolean"
| "getParsedType (JFunction f) = PT_function"
| "getParsedType (JBigInt n) = PT_bigint"
| "getParsedType JSymbol = PT_symbol"
| "getParsedType (JArr xs) = PT_array"
| "getParsedType JNull = PT_null"
| "getParsedType (JObj ps) = (if promise_like ps then PT_promise else PT_object)"
| "getParsedType (JInstance c ps) =
     (if promise_like ps then PT_promise
      else case c of Map_class \<Rightarrow> PT_map | Set_class \<Rightarrow> PT_set)"
| "getParsedType (JDate d) = PT_date"

text \<open>
  An issue: its code with the code's data (\<open>expected\<close> and \<open>received\<close>, or \<open>options\<close> and
  \<open>received\<close>) and the path of the value it is about. The message, which the library
  derives from these, is left out.
\<close>

datatype ZodIssueCode =
    invalid_type string ZodParsedType
  | invalid_enum_value "string list" jsval

datatype ZodIssue = ZodIssue (issue_code: ZodIssueCode) (path: "string list")

text \<open>
  What \<open>_parse\<close> returns: \<open>INVALID\<close> (the status \<open>aborted\<close>) or \<open>OK value\<close>. The status
  \<open>dirty\<close> comes from checks and refinements, which \<open>ErrorSchema\<close> has none of.
\<close>

datatype ParseReturn = INVALID | OK jsval

text \<open>
  A schema is its \<open>_parse\<close> method: from the path and the data to the issues it adds to
  the context and its return value.
\<close>

type_synonym ZodType = "string list \<Rightarrow> jsval \<Rightarrow> ZodIssue list \<times> ParseReturn"

definition z_string :: ZodType where
  "z_string p data =
     (if getParsedType data \<noteq> PT_string
      then ([ZodIssue (invalid_type ''string'' (getParsedType data)) p], INVALID)
      else ([], OK data))"

definition z_unknown :: ZodType where
  "z_unknown p data = ([], OK data)"

definition z_optional :: "ZodType \<Rightarrow> ZodType" where
  "z_optional innerType p data =
     (if getParsedType data = PT_undefined then ([], OK JUndefined) else innerType p data)"

text \<open>\<open>util.joinValues\<close>: the values in single quotes, separated by \<open> | \<close>.\<close>

definition joinValues :: "string list \<Rightarrow> string" where
  "joinValues vals = join '' | '' (map (\<lambda>v. [CHR 0x27] @ v @ [CHR 0x27]) vals)"

text \<open>
  \<open>z.nativeEnum\<close> of an enum whose values are the strings \<open>vals\<close>: the data must be a
  string or a number, and then a member of \<open>vals\<close> (\<open>indexOf\<close>, strict equality).
\<close>

definition z_nativeEnum :: "string list \<Rightarrow> ZodType" where
  "z_nativeEnum vals p data =
     (if getParsedType data \<noteq> PT_string \<and> getParsedType data \<noteq> PT_number
      then ([ZodIssue (invalid_type (joinValues vals) (getParsedType data)) p], INVALID)
      else if data \<notin> set (map JStr vals)
      then ([ZodIssue (invalid_enum_value vals data) p], INVALID)
      else ([], OK data))"

text \<open>
  \<open>ParseStatus.mergeObjectSync\<close>, on pairs of a key, the key's parsed value and the flag
  \<open>alwaysSet\<close>: one invalid value makes the object invalid; otherwise the values are
  assigned to a fresh object, the key \<open>__proto__\<close> and the undefined values whose key
  the input does not have being skipped. The key of a pair is a string with the status
  \<open>valid\<close>: the keys of a shape are, and \<open>z.record(valueType)\<close> parses its keys with
  \<open>z.string()\<close>, which accepts every string.
\<close>

fun mergeObjectSync :: "(string \<times> ParseReturn \<times> bool) list \<Rightarrow> jsobj \<Rightarrow> ParseReturn" where
  "mergeObjectSync [] finalObject = OK (JObj finalObject)"
| "mergeObjectSync ((k, INVALID, alwaysSet) # pairs) finalObject = INVALID"
| "mergeObjectSync ((k, OK v, alwaysSet) # pairs) finalObject =
     mergeObjectSync pairs
       (if k \<noteq> ''__proto__'' \<and> (v \<noteq> JUndefined \<or> alwaysSet)
        then js_set finalObject k v else finalObject)"

text \<open>
  \<open>z.object(shape)\<close> with the default policy for unknown keys (\<open>strip\<close>, with no
  catchall): data that is not classified as an object is refused with one issue at the
  path of the data. Otherwise each key of the shape is parsed on \<open>data[key]\<close> at the
  path extended by the key, in the order of the shape and whatever the other keys
  give; the keys of the data that the shape does not have are never read.
\<close>

definition z_object :: "(string \<times> ZodType) list \<Rightarrow> ZodType" where
  "z_object shape p data =
     (if getParsedType data \<noteq> PT_object
      then ([ZodIssue (invalid_type ''object'' (getParsedType data)) p], INVALID)
      else
        (let ps = own_properties data;
             results = map (\<lambda>(k, keyValidator).
                              (k, keyValidator (p @ [k]) (js_get ps k), js_in k ps)) shape
         in (concat (map (\<lambda>(k, r, alwaysSet). fst r) results),
             mergeObjectSync (map (\<lambda>(k, r, alwaysSet). (k, snd r, alwaysSet)) results) [])))"

text \<open>
  \<open>z.record(valueType)\<close>: the data must be classified as an object; each of its keys
  (\<open>for ... in\<close>) gives a pair whose value is \<open>valueType\<close> on \<open>data[key]\<close>.
\<close>

definition z_record :: "ZodType \<Rightarrow> ZodType" where
  "z_record valueType p data =
     (if getParsedType data \<noteq> PT_object
      then ([ZodIssue (invalid_type ''object'' (getParsedType data)) p], INVALID)
      else
        (let ps = own_properties data;
             results = map (\<lambda>k. (k, valueType (p @ [k]) (js_get ps k), js_in k ps))
                            (map fst ps)
         in (concat (map (\<lambda>(k, r, alwaysSet). fst r) results),
             mergeObjectSync (map (\<lambda>(k, r, alwaysSet). (k, snd r, alwaysSet)) results) [])))"

text \<open>\<open>.describe(text)\<close> attaches a description to the schema; parsing is unchanged.\<close>

definition describe :: "string \<Rightarrow> ZodType \<Rightarrow> ZodType" where
  "describe description schema = schema"

text \<open>
  \<open>schema.safeParse(data)\<close> parses at the empty path. \<open>handleResult\<close> returns the parsed
  value when the result is valid; otherwise it returns the issues of the context, and it
  throws when there is none.
\<close>

datatype SafeParseReturn = success jsval | failure "ZodIssue list"

definition safeParse :: "ZodType \<Rightarrow> jsval \<Rightarrow> js_error + SafeParseReturn" where
  "safeParse schema data =
     (case schema [] data of
        (issues, OK v) \<Rightarrow> Inr (success v)
      | (issues, INVALID) \<Rightarrow> if issues = [] then Inl LibraryError else Inr (failure issues))"

section \<open>The schema of error objects (\<open>errors.ts\<close>)\<close>

text \<open>The values of the enum object, as \<open>z.nativeEnum\<close> reads them.\<close>

definition BaseErrorCode_values :: "string list" where
  "BaseErrorCode_values = map BaseErrorCode_value BaseErrorCode_members"

definition ErrorSchema :: ZodType where
  "ErrorSchema =
     describe ''Schema for validating structured error objects.''
       (z_object
          [(''code'', describe ''Standardized error code'' (z_nativeEnum BaseErrorCode_values)),
           (''message'', describe ''Detailed error message'' z_string),
           (''details'', describe ''Optional structured error details''
                           (z_optional (z_record z_unknown)))])"

section \<open>The specification's notions\<close>

text \<open>
  The definitions of this section follow the words of the specification and of the
  claims, not the code; the theorems compare them with the code.

  The error variant of a tool response: one content item of type \<open>text\<close>, and \<open>isError\<close>
  true.
\<close>

definition error_response :: "string \<Rightarrow> McpToolResponse" where
  "error_response t = \<lparr>content = [\<lparr>type' = ''text'', text' = t\<rparr>], isError = True\<rparr>"

text \<open>The literal pattern \<open>Error [<code>]: <message>\<close>.\<close>

definition error_line :: "McpError \<Rightarrow> string" where
  "error_line e = ''Error ['' @ BaseErrorCode_value (code e) @ '']: '' @ message e"

text \<open>
  A serializable value (the specification's precondition on \<open>details\<close>): \<open>null\<close>, a
  boolean, a finite number, a string, or a sequence or an ordinary mapping of
  serializable values. Being trees, the values of the model have no cycles.
\<close>

fun serializable :: "jsval \<Rightarrow> bool"
and serializable_members :: "jsobj \<Rightarrow> bool"
and serializable_elements :: "jsval list \<Rightarrow> bool"
where
  "serializable JNull = True"
| "serializable (JBool b) = True"
| "serializable (JNum negative magnitude) = True"
| "serializable (JStr s) = True"
| "serializable (JArr xs) = serializable_elements xs"
| "serializable (JObj ps) = serializable_members ps"
| "serializable JUndefined = False"
| "serializable JNaN = False"
| "serializable (JInfinity negative) = False"
| "serializable (JBigInt n) = False"
| "serializable JSymbol = False"
| "serializable (JFunction f) = False"
| "serializable (JInstance c ps) = False"
| "serializable (JDate d) = False"
| "serializable_members [] = True"
| "serializable_members ((k, v) # ps) = (serializable v \<and> serializable_members ps)"
| "serializable_elements [] = True"
| "serializable_elements (v # vs) = (serializable v \<and> serializable_elements vs)"

definition serializable_details :: "jsobj option \<Rightarrow> bool" where
  "serializable_details d = (case d of None \<Rightarrow> True | Some ps \<Rightarrow> serializable_members ps)"

text \<open>
  Pretty-printing a serializable value with two spaces for each level of nesting: the
  members of a mapping are written \<open>"key": value\<close>, in the order of the mapping's keys,
  one on a line, inside braces; the elements of a sequence likewise inside brackets;
  an empty mapping is \<open>{}\<close>. \<open>depth\<close> is the level of nesting of the enclosing brackets.
  A value that is not serializable has no text.
\<close>

definition spaces :: "nat \<Rightarrow> string" where
  "spaces n = replicate n CHR '' ''"

definition pretty_block :: "string \<Rightarrow> string \<Rightarrow> nat \<Rightarrow> string list \<Rightarrow> string" where
  "pretty_block l r depth items =
     (if items = [] then l @ r
      else l @ [CHR 0x0A] @ spaces (2 * Suc depth)
           @ join ('','' @ [CHR 0x0A] @ spaces (2 * Suc depth)) items
           @ [CHR 0x0A] @ spaces (2 * depth) @ r)"

fun pretty_value :: "nat \<Rightarrow> jsval \<Rightarrow> string"
and pretty_members :: "nat \<Rightarrow> jsobj \<Rightarrow> string list"
and pretty_elements :: "nat \<Rightarrow> jsval list \<Rightarrow> string list"
where
  "pretty_value depth JNull = ''null''"
| "pretty_value depth (JBool b) = (if b then ''true'' else ''false'')"
| "pretty_value depth (JNum negative magnitude) = Number_toString negative magnitude"
| "pretty_value depth (JStr s) = QuoteJSONString s"
| "pretty_value depth (JArr xs) = pretty_block ''['' '']'' depth (pretty_elements depth xs)"
| "pretty_value depth (JObj ps) = pretty_block ''{'' ''}'' depth (pretty_members depth ps)"
| "pretty_value depth v = []"
| "pretty_members depth [] = []"
| "pretty_members depth ((k, v) # ps) =
     (QuoteJSONString k @ '': '' @ pretty_value (Suc depth) v) # pretty_members depth ps"
| "pretty_elements depth [] = []"
| "pretty_elements depth (v # vs) = pretty_value (Suc depth) v # pretty_elements depth vs"

text \<open>
  The text of a structured error: the pattern, followed when details is present by a
  newline, \<open>Details: \<close> and the pretty-printed details.
\<close>

definition rendered_text :: "McpError \<Rightarrow> string" where
  "rendered_text e =
     error_line e
     @ (case details e of
          None \<Rightarrow> []
        | Some d \<Rightarrow> ''\<newline>Details: '' @ pretty_block ''{'' ''}'' 0 (pretty_members 0 d))"

text \<open>The registry of error codes, as the specification lists it.\<close>

definition ErrorCode_registry :: "string list" where
  "ErrorCode_registry =
     [''UNAUTHORIZED'', ''FORBIDDEN'', ''NOT_FOUND'', ''CONFLICT'', ''VALIDATION_ERROR'',
      ''RATE_LIMITED'', ''TIMEOUT'', ''SERVICE_UNAVAILABLE'', ''INTERNAL_ERROR'',
      ''UNKNOWN_ERROR'', ''CONFIGURATION_ERROR'']"

text \<open>
  The checks of the validator on the fields of a mapping: \<open>code\<close> is a string of the
  registry, \<open>message\<close> is a string.
\<close>

definition code_ok :: "jsobj \<Rightarrow> bool" where
  "code_ok ps = (case js_get ps ''code'' of JStr c \<Rightarrow> c \<in> set ErrorCode_registry | _ \<Rightarrow> False)"

definition message_ok :: "jsobj \<Rightarrow> bool" where
  "message_ok ps = (case js_get ps ''message'' of JStr m \<Rightarrow> True | _ \<Rightarrow> False)"

text \<open>
  The shape as the claims state it: an object (not \<open>null\<close>, a primitive or an array)
  whose \<open>code\<close> and \<open>message\<close> pass their checks and whose \<open>details\<close> is absent
  (\<open>undefined\<close>) or an object, whatever its string keys hold.
\<close>

definition is_object :: "jsval \<Rightarrow> bool" where
  "is_object v =
     (case v of JObj ps \<Rightarrow> True | JInstance c ps \<Rightarrow> True | JDate d \<Rightarrow> True | _ \<Rightarrow> False)"

definition details_mapping :: "jsobj \<Rightarrow> bool" where
  "details_mapping ps =
     (case js_get ps ''details'' of JUndefined \<Rightarrow> True | d \<Rightarrow> is_object d)"

definition shape_as_claimed :: "jsval \<Rightarrow> bool" where
  "shape_as_claimed v =
     (is_object v \<and> code_ok (own_properties v) \<and> message_ok (own_properties v)
      \<and> details_mapping (own_properties v))"

text \<open>
  The shape that the validator accepts: the value, and its \<open>details\<close> when present, are
  plain objects, that is ordinary objects (no \<open>Map\<close>, \<open>Set\<close> or \<open>Date\<close>) that are not
  promise-like: \<open>then\<close> and \<open>catch\<close> are not both functions.
\<close>

definition plain_object :: "jsval \<Rightarrow> bool" where
  "plain_object v = (case v of JObj ps \<Rightarrow> \<not> promise_like ps | _ \<Rightarrow> False)"

definition details_ok :: "jsobj \<Rightarrow> bool" where
  "details_ok ps =
     (case js_get ps ''details'' of JUndefined \<Rightarrow> True | d \<Rightarrow> plain_object d)"

definition conforms :: "jsval \<Rightarrow> bool" where
  "conforms v =
     (case v of
        JObj ps \<Rightarrow> \<not> promise_like ps \<and> code_ok ps \<and> message_ok ps \<and> details_ok ps
      | _ \<Rightarrow> False)"

text \<open>What \<open>Validate\<close> returns: the validator is \<open>ErrorSchema.safeParse\<close>.\<close>

definition Validate :: "jsval \<Rightarrow> js_error + SafeParseReturn" where
  "Validate v = safeParse ErrorSchema v"


text \<open>The object \<open>{code, message, details}\<close> of the fields of an error.\<close>

definition error_fields :: "McpError \<Rightarrow> jsval" where
  "error_fields e =
     JObj [(''code'', JStr (BaseErrorCode_value (code e))),
           (''message'', JStr (message e)),
           (''details'', details_value e)]"

text \<open>
  The keys of a list of entries in the order of their insertion: each key where it
  first occurs.
\<close>

definition insertion_order :: "string list \<Rightarrow> string list" where
  "insertion_order ks = foldl (\<lambda>acc k. if k \<in> set acc then acc else acc @ [k]) [] ks"

text \<open>Details that are present and promise-like.\<close>

definition details_promise_like :: "jsobj option \<Rightarrow> bool" where
  "details_promise_like d = (case d of None \<Rightarrow> False | Some ps \<Rightarrow> promise_like ps)"


section \<open>The serializer on serializable values\<close>

text \<open>
  A serializable value has no \<open>toJSON\<close> method, and the serializer writes it as the
  pretty-printer does, in every external state and without changing that state.
\<close>

lemma serializable_member_not_callable:
  "serializable_members ps \<Longrightarrow> \<not> IsCallable (js_get ps k)"
proof (induction ps)
  case Nil
  then show ?case by (simp add: js_get_def)
next
  case (Cons p ps)
  obtain k' v where p: "p = (k', v)" by (cases p)
  show ?case
  proof (cases "k' = k")
    case True
    then show ?thesis using Cons.prems p by (cases v) (simp_all add: js_get_def)
  next
    case False
    then show ?thesis using Cons p by (simp add: js_get_def)
  qed
qed

lemma serializable_no_toJSON: "serializable v \<Longrightarrow> toJSON_method v = None"
proof (cases v)
  case (JObj ps)
  assume "serializable v"
  then have "\<not> IsCallable (js_get ps ''toJSON'')"
    using JObj by (simp add: serializable_member_not_callable)
  then show ?thesis using JObj by (cases "js_get ps ''toJSON''") simp_all
qed simp_all

lemma spaces_step: "spaces (2 * n) @ spaces 2 = spaces (Suc (Suc (2 * n)))"
  by (simp add: spaces_def flip: replicate_add)

lemma wrap_partial_pretty_block:
  "wrap_partial l r (spaces 2) (spaces (2 * n)) (spaces (Suc (Suc (2 * n)))) items =
     pretty_block l r n items"
  by (simp add: wrap_partial_def pretty_block_def spaces_def)

lemma Serialize_pretty:
  "serializable v \<Longrightarrow>
     SerializeJSONProperty (spaces 2) (spaces (2 * n)) v w = (Inr (Some (pretty_value n v)), w)
     \<and> SerializeJSONValue (spaces 2) (spaces (2 * n)) v w = (Inr (Some (pretty_value n v)), w)"
  "serializable_members ps \<Longrightarrow>
     SerializeJSONObject_members (spaces 2) (spaces (2 * Suc n)) ps w =
       (Inr (pretty_members n ps), w)"
  "serializable_elements xs \<Longrightarrow>
     SerializeJSONArray_elements (spaces 2) (spaces (2 * Suc n)) xs w =
       (Inr (pretty_elements n xs), w)"
proof (induction v and ps and xs arbitrary: n w and n w and n w
       rule: serializable_serializable_members_serializable_elements.induct)
  case (5 xs)
  then have "SerializeJSONArray_elements (spaces 2) (spaces (2 * Suc n)) xs w =
       (Inr (pretty_elements n xs), w)" by simp
  then show ?case
    using "5.prems" serializable_no_toJSON [of "JArr xs"]
    by (simp add: spaces_step wrap_partial_pretty_block)
next
  case (6 ps)
  then have "SerializeJSONObject_members (spaces 2) (spaces (2 * Suc n)) ps w =
       (Inr (pretty_members n ps), w)" by simp
  then show ?case
    using "6.prems" serializable_no_toJSON [of "JObj ps"]
    by (simp add: spaces_step wrap_partial_pretty_block)
next
  case (16 k v ps)
  have g: "spaces 2 \<noteq> []" by (simp add: spaces_def)
  have "SerializeJSONProperty (spaces 2) (spaces (2 * Suc n)) v w =
          (Inr (Some (pretty_value (Suc n) v)), w)"
    using "16.IH"(1) [of "Suc n" w] "16.prems" by simp
  moreover have "SerializeJSONObject_members (spaces 2) (spaces (2 * Suc n)) ps w =
       (Inr (pretty_members n ps), w)"
    using "16.IH"(2) [of n w] "16.prems" by simp
  ultimately show ?case using g by simp
next
  case (18 v vs)
  have "SerializeJSONProperty (spaces 2) (spaces (2 * Suc n)) v w =
          (Inr (Some (pretty_value (Suc n) v)), w)"
    using "18.IH"(1) [of "Suc n" w] "18.prems" by simp
  moreover have "SerializeJSONArray_elements (spaces 2) (spaces (2 * Suc n)) vs w =
       (Inr (pretty_elements n vs), w)"
    using "18.IH"(2) [of n w] "18.prems" by simp
  ultimately show ?case by simp
qed simp_all

lemma gap_2: "replicate 2 c = [c, c]"
  by (simp add: numeral_2_eq_2)

lemma spaces_2: "spaces 2 = [CHR '' '', CHR '' '']" and spaces_0: "spaces 0 = []"
  by (simp_all add: spaces_def numeral_2_eq_2)

lemma JSON_stringify_details:
  "serializable_members ps \<Longrightarrow>
     JSON_stringify (JObj ps) 2 w =
       (Inr (Some (pretty_block ''{'' ''}'' 0 (pretty_members 0 ps))), w)"
proof -
  assume "serializable_members ps"
  then have "serializable (JObj ps)" by simp
  then have "SerializeJSONProperty (spaces 2) (spaces (2 * 0)) (JObj ps) w =
               (Inr (Some (pretty_value 0 (JObj ps))), w)"
    using Serialize_pretty(1) by blast
  then show ?thesis by (simp add: JSON_stringify_def gap_2 spaces_2 spaces_0)
qed

section \<open>The keys of a constructed object\<close>

text \<open>
  The object built from a list of entries has the keys of the entries, each once: the
  array indices first, in ascending order, then the other keys in the order of their
  insertion. When the keys are distinct and none is an array index, the object is the
  list of entries itself.
\<close>

lemma object_from_entries_snoc:
  "object_from_entries (es @ [(k, v)]) = js_set (object_from_entries es) k v"
  by (simp add: object_from_entries_def)

lemma object_from_entries_insertion_order:
  "distinct (map fst es) \<Longrightarrow> \<not> list_ex is_array_index (map fst es) \<Longrightarrow>
     object_from_entries es = es"
proof (induction es rule: rev_induct)
  case Nil
  then show ?case by (simp add: object_from_entries_def)
next
  case (snoc p es)
  obtain k v where p: "p = (k, v)" by (cases p)
  have "object_from_entries es = es" using snoc by simp
  moreover have "\<not> js_in k es"
    using snoc.prems(1) p by (simp add: js_in_def map_of_eq_None_iff)
  moreover have "\<not> is_array_index k" using snoc.prems(2) p by simp
  ultimately show ?case by (simp add: p object_from_entries_snoc js_set_def)
qed

lemma map_fst_insort_key:
  "map fst (insort_key (\<lambda>p. f (fst p)) (k, v) xs) = insort_key f k (map fst xs)"
  by (induction xs) auto

lemma keys_js_set:
  "map fst (js_set obj k v) =
     (if k \<in> set (map fst obj) then map fst obj
      else if is_array_index k
      then insort_key digits_value k (filter is_array_index (map fst obj))
           @ filter (\<lambda>k. \<not> is_array_index k) (map fst obj)
      else map fst obj @ [k])"
proof -
  have i: "js_in k obj = (k \<in> set (map fst obj))"
    by (simp add: js_in_def map_of_eq_None_iff)
  have f: "map fst (filter (\<lambda>p. P (fst p)) obj) = filter P (map fst obj)" for P
    by (induction obj) auto
  show ?thesis
    using f [of is_array_index] f [of "\<lambda>k. \<not> is_array_index k"]
    by (simp add: js_set_def i update_keys map_fst_insort_key)
qed

lemma insertion_order_snoc:
  "insertion_order (ks @ [k]) =
     (if k \<in> set (insertion_order ks) then insertion_order ks else insertion_order ks @ [k])"
  by (simp add: insertion_order_def)

lemma set_insertion_order: "set (insertion_order ks) = set ks"
  by (induction ks rule: rev_induct) (auto simp add: insertion_order_snoc, simp add: insertion_order_def)

lemma object_keys_order:
  "set (map fst (object_from_entries es)) = set (map fst es)
   \<and> distinct (map fst (object_from_entries es))
   \<and> map fst (object_from_entries es) =
       filter is_array_index (map fst (object_from_entries es))
       @ filter (\<lambda>k. \<not> is_array_index k) (map fst (object_from_entries es))
   \<and> sorted (map digits_value (filter is_array_index (map fst (object_from_entries es))))
   \<and> filter (\<lambda>k. \<not> is_array_index k) (map fst (object_from_entries es)) =
       filter (\<lambda>k. \<not> is_array_index k) (insertion_order (map fst es))"
proof (induction es rule: rev_induct)
  case Nil
  then show ?case by (simp add: object_from_entries_def insertion_order_def)
next
  case (snoc p es)
  obtain k v where p: "p = (k, v)" by (cases p)
  define ks where "ks = map fst (object_from_entries es)"
  have s: "set ks = set (map fst es)" and d: "distinct ks"
    and o: "ks = filter is_array_index ks @ filter (\<lambda>k. \<not> is_array_index k) ks"
    and a: "sorted (map digits_value (filter is_array_index ks))"
    and n: "filter (\<lambda>k. \<not> is_array_index k) ks =
              filter (\<lambda>k. \<not> is_array_index k) (insertion_order (map fst es))"
    using snoc unfolding ks_def by blast+
  define ks' where "ks' = map fst (object_from_entries (es @ [p]))"
  have k': "ks' = (if k \<in> set ks then ks
      else if is_array_index k
      then insort_key digits_value k (filter is_array_index ks)
           @ filter (\<lambda>k. \<not> is_array_index k) ks
      else ks @ [k])"
    by (simp add: ks'_def ks_def p object_from_entries_snoc keys_js_set)
  have m: "(k \<in> set (insertion_order (map fst es))) = (k \<in> set ks)"
    by (simp add: set_insertion_order s)
  have "set ks' = set (map fst (es @ [p]))
   \<and> distinct ks'
   \<and> ks' = filter is_array_index ks' @ filter (\<lambda>k. \<not> is_array_index k) ks'
   \<and> sorted (map digits_value (filter is_array_index ks'))
   \<and> filter (\<lambda>k. \<not> is_array_index k) ks' =
       filter (\<lambda>k. \<not> is_array_index k) (insertion_order (map fst (es @ [p])))"
  proof (cases "k \<in> set ks")
    case True
    then show ?thesis
      using s d o a n m by (auto simp add: k' p insertion_order_snoc)
  next
    case False
    show ?thesis
    proof (cases "is_array_index k")
      case True
      have f1: "filter is_array_index (insort_key digits_value k (filter is_array_index ks)) =
                  insort_key digits_value k (filter is_array_index ks)"
        using True by (auto simp add: filter_id_conv set_insort_key)
      have f2: "filter (\<lambda>k. \<not> is_array_index k)
                  (insort_key digits_value k (filter is_array_index ks)) = []"
        using True by (auto simp add: filter_empty_conv set_insort_key)
      have d': "distinct (insort_key digits_value k (filter is_array_index ks)
                          @ filter (\<lambda>k. \<not> is_array_index k) ks)"
        using d False by (auto simp add: distinct_insort set_insort_key)
      have k2: "ks' = insort_key digits_value k (filter is_array_index ks)
                       @ filter (\<lambda>k. \<not> is_array_index k) ks"
        using False True by (simp add: k')
      have c1: "set ks' = set (map fst (es @ [p]))"
        using s o by (auto simp add: k2 p set_insort_key)
      have c2: "distinct ks'" using d' by (simp add: k2)
      have c3: "ks' = filter is_array_index ks' @ filter (\<lambda>k. \<not> is_array_index k) ks'"
        by (simp add: k2 f1 f2)
      have c4: "sorted (map digits_value (filter is_array_index ks'))"
        using a by (simp add: k2 f1 sorted_insort_key)
      have c5: "filter (\<lambda>k. \<not> is_array_index k) ks' =
                  filter (\<lambda>k. \<not> is_array_index k) (insertion_order (map fst (es @ [p])))"
        using n True by (simp add: k2 f2 p insertion_order_snoc)
      show ?thesis using c1 c2 c3 c4 c5 by blast
    next
      case n': False
      show ?thesis
        using s d o a n m False n'
        by (auto simp add: k' p insertion_order_snoc)
    qed
  qed
  then show ?case unfolding ks'_def .
qed

section \<open>The response of \<open>toResponse\<close>\<close>

text \<open>
  On serializable details \<open>toResponse\<close> returns the response whose text is
  \<open>rendered_text\<close>, and leaves the instance and the external state as they were.
\<close>

lemma toResponse_serializable:
  "serializable_details (details e) \<Longrightarrow>
     toResponse e w =
       \<lparr>returned = Inr (error_response (rendered_text e)), this_after = e, world_after = w\<rparr>"
proof (cases "details e")
  case None
  then show ?thesis
    by (simp add: toResponse_def errorText_def details_value_def rendered_text_def
        error_response_def error_line_def)
next
  case (Some ps)
  assume "serializable_details (details e)"
  then have "serializable_members ps" using Some by (simp add: serializable_details_def)
  then show ?thesis
    using Some
    by (simp add: toResponse_def errorText_def details_value_def rendered_text_def
        error_response_def error_line_def JSON_stringify_details template_part_def)
qed


lemma toResponse_returned_shape:
  "returned (toResponse e w) = Inr r \<Longrightarrow>
     \<exists>t. r = \<lparr>content = [\<lparr>type' = ''text'', text' = t\<rparr>], isError = True\<rparr>"
  by (cases "errorText e w"; cases "fst (errorText e w)") (auto simp add: toResponse_def)

text \<open>
  Claim C1. For an error whose details are absent or a mapping of serializable values,
  the text of the response is \<open>Error [<code>]: <message>\<close>, followed exactly when details
  is present (empty or not) by a newline, \<open>Details: \<close> and the details pretty-printed
  with two spaces for each level of nesting, the members in the order of the object's
  keys; with details absent the text is the pattern alone. For details built from a list
  of entries with distinct keys none of which is an array index, the members are written
  in the order of insertion. In general the keys of the object built from the entries
  are the keys of the entries, each once, the array indices first in ascending numeric
  order, then the other keys in their order of insertion.

  The claim as worded, with the Details block only for non-empty details and always in
  insertion order, fails: a counterexample follows the theorem.
\<close>

theorem toResponse_text:
  "(serializable_details (details e) \<longrightarrow>
      returned (toResponse e w) =
        Inr (error_response
               (error_line e
                @ (case details e of
                     None \<Rightarrow> []
                   | Some d \<Rightarrow>
                       ''\<newline>Details: ''
                       @ pretty_block ''{'' ''}'' 0 (pretty_members 0 d)))))
   \<and> (serializable_members entries \<and> distinct (map fst entries)
        \<and> \<not> list_ex is_array_index (map fst entries) \<longrightarrow>
      returned (toResponse (McpError_constructor c m (Some (object_from_entries entries))) w) =
        Inr (error_response
               (''Error ['' @ BaseErrorCode_value c @ '']: '' @ m @ ''\<newline>Details: ''
                @ pretty_block ''{'' ''}'' 0 (pretty_members 0 entries))))
   \<and> set (map fst (object_from_entries entries)) = set (map fst entries)
   \<and> distinct (map fst (object_from_entries entries))
   \<and> map fst (object_from_entries entries) =
       filter is_array_index (map fst (object_from_entries entries))
       @ filter (\<lambda>k. \<not> is_array_index k) (map fst (object_from_entries entries))
   \<and> sorted (map digits_value (filter is_array_index (map fst (object_from_entries entries))))
   \<and> filter (\<lambda>k. \<not> is_array_index k) (map fst (object_from_entries entries)) =
       filter (\<lambda>k. \<not> is_array_index k) (insertion_order (map fst entries))"
proof -
  have a: "returned (toResponse e w) =
        Inr (error_response
               (error_line e
                @ (case details e of
                     None \<Rightarrow> []
                   | Some d \<Rightarrow>
                       ''\<newline>Details: ''
                       @ pretty_block ''{'' ''}'' 0 (pretty_members 0 d))))"
    if "serializable_details (details e)"
    using that by (simp add: toResponse_serializable rendered_text_def)
  have b: "returned (toResponse (McpError_constructor c m (Some (object_from_entries entries))) w) =
        Inr (error_response
               (''Error ['' @ BaseErrorCode_value c @ '']: '' @ m @ ''\<newline>Details: ''
                @ pretty_block ''{'' ''}'' 0 (pretty_members 0 entries)))"
    if h: "serializable_members entries \<and> distinct (map fst entries)
        \<and> \<not> list_ex is_array_index (map fst entries)"
  proof -
    have o: "object_from_entries entries = entries"
      using h by (simp add: object_from_entries_insertion_order)
    have "serializable_details (details (McpError_constructor c m (Some entries)))"
      using h by (simp add: serializable_details_def McpError_constructor_def)
    then show ?thesis
      by (simp add: o toResponse_serializable rendered_text_def error_line_def
          McpError_constructor_def)
  qed
  show ?thesis using a b object_keys_order [of entries] by blast
qed

text \<open>
  The examples of the specification, \<open>{field: "name"}\<close> and the error without details,
  and details whose keys \<open>b\<close>, \<open>a\<close> are written in the order of their insertion.
\<close>

theorem toResponse_text_witness:
  "serializable_details
     (details (McpError_constructor VALIDATION_ERROR ''bad field''
        (Some [(''field'', JStr ''name'')])))
   \<and> returned (toResponse (McpError_constructor VALIDATION_ERROR ''bad field''
                  (Some [(''field'', JStr ''name'')])) 0) =
       Inr (error_response
              (''Error [VALIDATION_ERROR]: bad field\<newline>Details: {\<newline>  ''
               @ [CHR 0x22] @ ''field'' @ [CHR 0x22] @ '': ''
               @ [CHR 0x22] @ ''name'' @ [CHR 0x22] @ ''\<newline>}''))
   \<and> returned (toResponse (McpError_constructor NOT_FOUND ''missing widget'' None) 0) =
       Inr (error_response ''Error [NOT_FOUND]: missing widget'')
   \<and> serializable_members [(''b'', JNum False 1), (''a'', JNum False 2)]
   \<and> distinct (map fst [(''b'', JNum False 1), (''a'', JNum False 2)])
   \<and> \<not> list_ex is_array_index (map fst [(''b'', JNum False 1), (''a'', JNum False 2)])
   \<and> returned (toResponse (McpError_constructor CONFLICT ''m''
                  (Some (object_from_entries [(''b'', JNum False 1), (''a'', JNum False 2)]))) 0) =
       Inr (error_response
              (''Error [CONFLICT]: m\<newline>Details: {\<newline>  ''
               @ [CHR 0x22] @ ''b'' @ [CHR 0x22] @ '': 1,\<newline>  ''
               @ [CHR 0x22] @ ''a'' @ [CHR 0x22] @ '': 2\<newline>}''))"
  using toResponse_text
      [of "McpError_constructor VALIDATION_ERROR ''bad field'' (Some [(''field'', JStr ''name'')])"
          0 "[(''b'', JNum False 1), (''a'', JNum False 2)]" CONFLICT "''m''"]
    toResponse_text
      [of "McpError_constructor NOT_FOUND ''missing widget'' None"
          0 "[(''b'', JNum False 1), (''a'', JNum False 2)]" CONFLICT "''m''"]
  by (simp add: serializable_details_def McpError_constructor_def error_line_def
      pretty_block_def spaces_2 spaces_0 gap_2 QuoteJSONString_def quote_char_def
      Number_toString_def is_array_index_def)

text \<open>
  Three inputs on which the text is not what the claim as worded says. For the empty
  mapping the Details block is written. The key \<open>1\<close>, inserted after the key \<open>b\<close>, is
  written before it. Details with a \<open>toJSON\<close> method are written as what the method
  returns, here \<open>42\<close>, not as the mapping.
\<close>

theorem toResponse_text_counterexample:
  "returned (toResponse (McpError_constructor NOT_FOUND ''missing widget'' (Some [])) 0) =
     Inr (error_response ''Error [NOT_FOUND]: missing widget\<newline>Details: {}'')
   \<and> object_from_entries [(''b'', JNum False 1), (''1'', JNum False 2)] =
       [(''1'', JNum False 2), (''b'', JNum False 1)]
   \<and> returned (toResponse (McpError_constructor NOT_FOUND ''missing widget''
        (Some (object_from_entries [(''b'', JNum False 1), (''1'', JNum False 2)]))) 0) =
     Inr (error_response
            (''Error [NOT_FOUND]: missing widget\<newline>Details: {\<newline>  ''
             @ [CHR 0x22] @ ''1'' @ [CHR 0x22] @ '': 2,\<newline>  ''
             @ [CHR 0x22] @ ''b'' @ [CHR 0x22] @ '': 1\<newline>}''))
   \<and> returned (toResponse (McpError_constructor NOT_FOUND ''missing widget''
        (Some [(''toJSON'', JFunction (Returns (JNum False 42)))])) 0) =
     Inr (error_response ''Error [NOT_FOUND]: missing widget\<newline>Details: 42'')"
  by (simp add: toResponse_def errorText_def details_value_def McpError_constructor_def
      JSON_stringify_def wrap_partial_def template_part_def error_response_def
      object_from_entries_def js_set_def js_in_def js_get_def is_array_index_def
      digits_value_def QuoteJSONString_def quote_char_def Number_toString_def gap_2)

text \<open>
  Claim C3. For every code, every message and all serializable optional details,
  \<open>toResponse\<close> on the constructed instance returns a response with exactly one content
  item, of type \<open>text\<close>, and \<open>isError\<close> true. And for all details whatever: when
  \<open>toResponse\<close> returns a response, it has exactly one content item, of type \<open>text\<close>,
  and \<open>isError\<close> is true.

  Without the condition on the details the claim fails: a counterexample follows the theorem.
\<close>

theorem toResponse_shape:
  "(serializable_details d \<longrightarrow>
      (\<exists>t. returned (toResponse (McpError_constructor c m d) w) =
             Inr \<lparr>content = [\<lparr>type' = ''text'', text' = t\<rparr>], isError = True\<rparr>))
   \<and> (returned (toResponse (McpError_constructor c m d) w) = Inr r \<longrightarrow>
        length (content r) = 1 \<and> type' (hd (content r)) = ''text'' \<and> isError r = True)"
proof -
  have "\<exists>t. returned (toResponse (McpError_constructor c m d) w) =
             Inr \<lparr>content = [\<lparr>type' = ''text'', text' = t\<rparr>], isError = True\<rparr>"
    if "serializable_details d"
  proof -
    have "serializable_details (details (McpError_constructor c m d))"
      using that by (simp add: McpError_constructor_def)
    then show ?thesis by (simp add: toResponse_serializable error_response_def)
  qed
  moreover have "length (content r) = 1 \<and> type' (hd (content r)) = ''text'' \<and> isError r = True"
    if h: "returned (toResponse (McpError_constructor c m d) w) = Inr r"
  proof -
    obtain t where "r = \<lparr>content = [\<lparr>type' = ''text'', text' = t\<rparr>], isError = True\<rparr>"
      using h toResponse_returned_shape by blast
    then show ?thesis by simp
  qed
  ultimately show ?thesis by blast
qed

theorem toResponse_shape_witness:
  "serializable_details (Some [(''field'', JStr ''name'')])
   \<and> (\<exists>t. returned (toResponse (McpError_constructor VALIDATION_ERROR ''bad field''
                (Some [(''field'', JStr ''name'')])) 0) =
             Inr \<lparr>content = [\<lparr>type' = ''text'', text' = t\<rparr>], isError = True\<rparr>)
   \<and> returned (toResponse (McpError_constructor NOT_FOUND ''missing widget'' None) 0) =
       Inr (error_response ''Error [NOT_FOUND]: missing widget'')
   \<and> length (content (error_response ''Error [NOT_FOUND]: missing widget'')) = 1
   \<and> type' (hd (content (error_response ''Error [NOT_FOUND]: missing widget''))) = ''text''
   \<and> isError (error_response ''Error [NOT_FOUND]: missing widget'') = True"
  using toResponse_shape [of "Some [(''field'', JStr ''name'')]" VALIDATION_ERROR "''bad field''" 0
      "error_response ''x''"]
    toResponse_shape [of None NOT_FOUND "''missing widget''" 0
      "error_response ''Error [NOT_FOUND]: missing widget''"]
  by (simp add: serializable_details_def toResponse_def errorText_def details_value_def
      McpError_constructor_def error_response_def)

text \<open>
  Details that hold a \<open>BigInt\<close>: \<open>JSON.stringify\<close> throws a \<open>TypeError\<close>, which leaves
  \<open>toResponse\<close>; no response is returned.
\<close>

theorem toResponse_shape_counterexample:
  "returned (toResponse (McpError_constructor INTERNAL_ERROR ''stat failed''
          (Some [(''size'', JBigInt 1024)])) 0) = Inl TypeError"
  by (simp add: toResponse_def errorText_def details_value_def McpError_constructor_def
      JSON_stringify_def js_get_def)

text \<open>
  Claim C6. For an instance whose details are absent or a mapping of serializable
  values, \<open>toResponse\<close> returns one and the same response in every external state,
  leaves the external state as it was, and a second call, on the instance and in the
  state that the first call left, returns the response of the first.

  For other details the claim fails: a counterexample follows the theorem.
\<close>

theorem toResponse_deterministic:
  "serializable_details (details e) \<longrightarrow>
     (\<exists>r. \<forall>w. returned (toResponse e w) = Inr r)
     \<and> (\<forall>w. world_after (toResponse e w) = w)
     \<and> (\<forall>w. returned (toResponse (this_after (toResponse e w)) (world_after (toResponse e w))) =
               returned (toResponse e w))"
proof
  assume s: "serializable_details (details e)"
  have "\<forall>w. returned (toResponse e w) = Inr (error_response (rendered_text e))"
    using s by (simp add: toResponse_serializable)
  then have "\<exists>r. \<forall>w. returned (toResponse e w) = Inr r" by blast
  then show "(\<exists>r. \<forall>w. returned (toResponse e w) = Inr r)
     \<and> (\<forall>w. world_after (toResponse e w) = w)
     \<and> (\<forall>w. returned (toResponse (this_after (toResponse e w)) (world_after (toResponse e w))) =
               returned (toResponse e w))"
    using s by (simp add: toResponse_serializable)
qed

theorem toResponse_deterministic_witness:
  "serializable_details (details (McpError_constructor RATE_LIMITED ''slow down''
      (Some [(''retryAfterMs'', JNum False 500)])))
   \<and> (\<exists>r. \<forall>w. returned (toResponse (McpError_constructor RATE_LIMITED ''slow down''
                      (Some [(''retryAfterMs'', JNum False 500)])) w) = Inr r)
   \<and> world_after (toResponse (McpError_constructor RATE_LIMITED ''slow down''
                      (Some [(''retryAfterMs'', JNum False 500)])) 3) = 3"
  using toResponse_deterministic
    [of "McpError_constructor RATE_LIMITED ''slow down'' (Some [(''retryAfterMs'', JNum False 500)])"]
  by (simp add: serializable_details_def McpError_constructor_def)

text \<open>
  Details whose \<open>toJSON\<close> method reads and advances a counter of the environment: the
  first call writes \<open>Details: 0\<close>, the second call on the same instance \<open>Details: 1\<close>.
\<close>

theorem toResponse_deterministic_counterexample:
  "returned (toResponse (McpError_constructor INTERNAL_ERROR ''m''
      (Some [(''toJSON'', JFunction Counts)])) 0) =
     Inr (error_response ''Error [INTERNAL_ERROR]: m\<newline>Details: 0'')
   \<and> returned
       (toResponse
          (this_after (toResponse (McpError_constructor INTERNAL_ERROR ''m''
                         (Some [(''toJSON'', JFunction Counts)])) 0))
          (world_after (toResponse (McpError_constructor INTERNAL_ERROR ''m''
                         (Some [(''toJSON'', JFunction Counts)])) 0))) =
     Inr (error_response ''Error [INTERNAL_ERROR]: m\<newline>Details: 1'')"
  by (simp add: toResponse_def errorText_def details_value_def McpError_constructor_def
      JSON_stringify_def js_get_def template_part_def error_response_def
      Number_toString_def)

text \<open>
  Claim C7. The constructor returns, for every code, message and optional details, the
  instance with these fields; and when the details hold only serializable values,
  \<open>toResponse\<close> on the instance returns a response: no exception leaves it.
\<close>

theorem construct_and_render_total:
  "code (McpError_constructor c m d) = c
   \<and> message (McpError_constructor c m d) = m
   \<and> details (McpError_constructor c m d) = d
   \<and> (serializable_details d \<longrightarrow>
        (\<exists>r. returned (toResponse (McpError_constructor c m d) w) = Inr r))"
proof -
  have "\<exists>r. returned (toResponse (McpError_constructor c m d) w) = Inr r"
    if "serializable_details d"
  proof -
    have "serializable_details (details (McpError_constructor c m d))"
      using that by (simp add: McpError_constructor_def)
    then show ?thesis by (simp add: toResponse_serializable)
  qed
  then show ?thesis by (simp add: McpError_constructor_def)
qed

theorem construct_and_render_total_witness:
  "serializable_details
     (Some [(''retryAfterMs'', JNum False 500), (''fields'', JArr [JStr ''name'', JNull])])
   \<and> (\<exists>r. returned (toResponse (McpError_constructor RATE_LIMITED ''slow down''
               (Some [(''retryAfterMs'', JNum False 500),
                      (''fields'', JArr [JStr ''name'', JNull])])) 0) = Inr r)"
  using construct_and_render_total
    [of RATE_LIMITED "''slow down''"
        "Some [(''retryAfterMs'', JNum False 500), (''fields'', JArr [JStr ''name'', JNull])]" 0]
  by (simp add: serializable_details_def)


text \<open>
  Claim C9. For details equal to the empty mapping, the value of \<open>this.details\<close> is
  truthy and the text is \<open>Error [<code>]: <message>\<close> followed by a newline and
  \<open>Details: {}\<close>.
\<close>

theorem toResponse_empty_details:
  "ToBoolean (details_value (McpError_constructor c m (Some []))) = True
   \<and> returned (toResponse (McpError_constructor c m (Some [])) w) =
       Inr (error_response
              (''Error ['' @ BaseErrorCode_value c @ '']: '' @ m @ ''\<newline>Details: {}''))"
  by (simp add: toResponse_def errorText_def details_value_def McpError_constructor_def
      JSON_stringify_def wrap_partial_def template_part_def error_response_def js_get_def)

section \<open>The validator\<close>

text \<open>
  The schema on an object that is not promise-like: the three fields are parsed one by
  one, and the issues of the fields are the issues of the object.
\<close>

lemma BaseErrorCode_values_registry: "BaseErrorCode_values = ErrorCode_registry"
  by (simp add: BaseErrorCode_values_def BaseErrorCode_members_def ErrorCode_registry_def)

lemma plain_object_parsedType: "(getParsedType v = PT_object) = plain_object v"
  by (cases v) (auto simp add: plain_object_def split: js_class.splits)

lemma plain_object_JObj: "plain_object v \<Longrightarrow> \<exists>ps. v = JObj ps \<and> \<not> promise_like ps"
  by (cases v) (simp_all add: plain_object_def)

lemma mergeObjectSync_OK:
  "\<forall>p \<in> set pairs. fst (snd p) \<noteq> INVALID \<Longrightarrow> \<exists>out. mergeObjectSync pairs acc = OK (JObj out)"
  by (induction pairs acc rule: mergeObjectSync.induct) auto

lemma z_record_unknown:
  "plain_object d \<Longrightarrow> \<exists>out. z_record z_unknown p d = ([], OK (JObj out))"
proof -
  assume pl: "plain_object d"
  have "\<exists>out. mergeObjectSync (map (\<lambda>x. (g x, OK (h x), a x)) xs) acc = OK (JObj out)"
    for g :: "string \<times> jsval \<Rightarrow> string" and h a xs acc
    by (rule mergeObjectSync_OK) auto
  then show ?thesis
    using pl by (simp add: z_record_def z_unknown_def Let_def comp_def plain_object_parsedType)
qed

lemma z_record_not_plain:
  "\<not> plain_object d \<Longrightarrow>
     z_record vt p d = ([ZodIssue (invalid_type ''object'' (getParsedType d)) p], INVALID)"
  by (simp add: z_record_def plain_object_parsedType)

lemma ErrorSchema_plain:
  "\<not> promise_like ps \<Longrightarrow>
   ErrorSchema p (JObj ps) =
     (let rc = z_nativeEnum BaseErrorCode_values (p @ [''code'']) (js_get ps ''code'');
          rm = z_string (p @ [''message'']) (js_get ps ''message'');
          rd = z_optional (z_record z_unknown) (p @ [''details'']) (js_get ps ''details'')
      in (fst rc @ fst rm @ fst rd,
          mergeObjectSync [(''code'', snd rc, js_in ''code'' ps),
                           (''message'', snd rm, js_in ''message'' ps),
                           (''details'', snd rd, js_in ''details'' ps)] []))"
  by (simp add: ErrorSchema_def describe_def z_object_def Let_def)

lemma ErrorSchema_not_plain:
  "\<not> plain_object v \<Longrightarrow>
     ErrorSchema p v = ([ZodIssue (invalid_type ''object'' (getParsedType v)) p], INVALID)"
  by (simp add: ErrorSchema_def describe_def z_object_def plain_object_parsedType)

lemma code_parse:
  "z_nativeEnum BaseErrorCode_values p (js_get ps ''code'') =
     (if code_ok ps then ([], OK (js_get ps ''code''))
      else if getParsedType (js_get ps ''code'') \<noteq> PT_string
              \<and> getParsedType (js_get ps ''code'') \<noteq> PT_number
      then ([ZodIssue (invalid_type (joinValues BaseErrorCode_values)
                         (getParsedType (js_get ps ''code''))) p], INVALID)
      else ([ZodIssue (invalid_enum_value BaseErrorCode_values (js_get ps ''code'')) p],
            INVALID))"
  by (cases "js_get ps ''code''")
     (auto simp add: z_nativeEnum_def code_ok_def BaseErrorCode_values_registry
        split: js_class.splits)

lemma message_parse:
  "z_string p (js_get ps ''message'') =
     (if message_ok ps then ([], OK (js_get ps ''message''))
      else ([ZodIssue (invalid_type ''string'' (getParsedType (js_get ps ''message''))) p],
            INVALID))"
  by (cases "js_get ps ''message''")
     (simp_all add: z_string_def message_ok_def split: js_class.splits)

lemma details_parse:
  "\<exists>out. z_optional (z_record z_unknown) p (js_get ps ''details'') =
     (if details_ok ps then ([], OK out)
      else ([ZodIssue (invalid_type ''object'' (getParsedType (js_get ps ''details''))) p],
            INVALID))
     \<and> (out = JUndefined \<or> (\<exists>d. out = JObj d))
     \<and> (out \<noteq> JUndefined \<longrightarrow> js_get ps ''details'' \<noteq> JUndefined)"
proof (cases "js_get ps ''details'' = JUndefined")
  case True
  then show ?thesis by (simp add: z_optional_def details_ok_def)
next
  case False
  then have u: "getParsedType (js_get ps ''details'') \<noteq> PT_undefined"
    by (cases "js_get ps ''details''") (simp_all split: js_class.splits)
  have d: "details_ok ps = plain_object (js_get ps ''details'')"
    using False by (cases "js_get ps ''details''") (simp_all add: details_ok_def)
  show ?thesis
  proof (cases "plain_object (js_get ps ''details'')")
    case True
    then obtain out where "z_record z_unknown p (js_get ps ''details'') = ([], OK (JObj out))"
      using z_record_unknown by blast
    then show ?thesis using True d u False by (auto simp add: z_optional_def)
  next
    case n: False
    then show ?thesis using d u by (auto simp add: z_optional_def z_record_not_plain)
  qed
qed

lemma ErrorSchema_issues:
  "\<not> promise_like ps \<Longrightarrow>
   fst (ErrorSchema [] (JObj ps)) =
     (if code_ok ps then []
      else if getParsedType (js_get ps ''code'') \<noteq> PT_string
              \<and> getParsedType (js_get ps ''code'') \<noteq> PT_number
      then [ZodIssue (invalid_type (joinValues BaseErrorCode_values)
                        (getParsedType (js_get ps ''code''))) [''code'']]
      else [ZodIssue (invalid_enum_value BaseErrorCode_values (js_get ps ''code'')) [''code'']])
     @ (if message_ok ps then []
        else [ZodIssue (invalid_type ''string'' (getParsedType (js_get ps ''message'')))
                [''message'']])
     @ (if details_ok ps then []
        else [ZodIssue (invalid_type ''object'' (getParsedType (js_get ps ''details'')))
                [''details'']])"
proof -
  assume n: "\<not> promise_like ps"
  obtain out where d: "z_optional (z_record z_unknown) [''details''] (js_get ps ''details'') =
     (if details_ok ps then ([], OK out)
      else ([ZodIssue (invalid_type ''object'' (getParsedType (js_get ps ''details'')))
               [''details'']], INVALID))"
    using details_parse [of "[''details'']" ps] by blast
  show ?thesis
    by (simp add: ErrorSchema_plain [OF n] Let_def code_parse message_parse d)
qed

lemma ErrorSchema_return:
  "\<not> promise_like ps \<Longrightarrow>
   \<exists>dv. (dv = JUndefined \<or> (\<exists>d. dv = JObj d)) \<and>
     snd (ErrorSchema [] (JObj ps)) =
       (if code_ok ps \<and> message_ok ps \<and> details_ok ps
        then OK (JObj ([(''code'', js_get ps ''code''), (''message'', js_get ps ''message'')]
                       @ (if js_in ''details'' ps then [(''details'', dv)] else [])))
        else INVALID)"
proof -
  assume n: "\<not> promise_like ps"
  obtain out where d: "z_optional (z_record z_unknown) [''details''] (js_get ps ''details'') =
     (if details_ok ps then ([], OK out)
      else ([ZodIssue (invalid_type ''object'' (getParsedType (js_get ps ''details'')))
               [''details'']], INVALID))"
    and o: "out = JUndefined \<or> (\<exists>d. out = JObj d)"
    and i0: "out \<noteq> JUndefined \<longrightarrow> js_get ps ''details'' \<noteq> JUndefined"
    using details_parse [of "[''details'']" ps] by blast
  have c: "js_in ''code'' ps" if "code_ok ps"
    using that by (auto simp add: code_ok_def js_in_def js_get_def split: option.splits)
  have m: "js_in ''message'' ps" if "message_ok ps"
    using that by (auto simp add: message_ok_def js_in_def js_get_def split: option.splits)
  have i: "js_in ''details'' ps" if "out \<noteq> JUndefined"
    using that i0 by (auto simp add: js_in_def js_get_def split: option.splits)
  have na: "\<not> is_array_index ''code''" "\<not> is_array_index ''message''"
    "\<not> is_array_index ''details''"
    by (simp_all add: is_array_index_def)
  have "snd (ErrorSchema [] (JObj ps)) =
       (if code_ok ps \<and> message_ok ps \<and> details_ok ps
        then OK (JObj ([(''code'', js_get ps ''code''), (''message'', js_get ps ''message'')]
                       @ (if js_in ''details'' ps then [(''details'', out)] else [])))
        else INVALID)"
    using c m i na
    by (auto simp add: ErrorSchema_plain [OF n] Let_def code_parse message_parse d
        js_set_def js_in_def)
  then show ?thesis using o by blast
qed

lemma safeParse_plain:
  "\<not> promise_like ps \<Longrightarrow>
   \<exists>dv. (dv = JUndefined \<or> (\<exists>d. dv = JObj d)) \<and>
     safeParse ErrorSchema (JObj ps) =
       (if conforms (JObj ps)
        then Inr (success (JObj ([(''code'', js_get ps ''code''),
                                  (''message'', js_get ps ''message'')]
                       @ (if js_in ''details'' ps then [(''details'', dv)] else []))))
        else Inr (failure (fst (ErrorSchema [] (JObj ps)))))"
proof -
  assume n: "\<not> promise_like ps"
  obtain dv where o: "dv = JUndefined \<or> (\<exists>d. dv = JObj d)" and
    r: "snd (ErrorSchema [] (JObj ps)) =
       (if code_ok ps \<and> message_ok ps \<and> details_ok ps
        then OK (JObj ([(''code'', js_get ps ''code''), (''message'', js_get ps ''message'')]
                       @ (if js_in ''details'' ps then [(''details'', dv)] else [])))
        else INVALID)"
    using ErrorSchema_return [OF n] by blast
  have ne: "fst (ErrorSchema [] (JObj ps)) \<noteq> []" if "\<not> conforms (JObj ps)"
    using that n by (auto simp add: ErrorSchema_issues conforms_def)
  have "safeParse ErrorSchema (JObj ps) =
       (if conforms (JObj ps)
        then Inr (success (JObj ([(''code'', js_get ps ''code''),
                                  (''message'', js_get ps ''message'')]
                       @ (if js_in ''details'' ps then [(''details'', dv)] else []))))
        else Inr (failure (fst (ErrorSchema [] (JObj ps)))))"
    using r ne n
    by (cases "ErrorSchema [] (JObj ps)") (auto simp add: safeParse_def conforms_def)
  then show ?thesis using o by blast
qed

lemma Validate_not_plain:
  "\<not> plain_object v \<Longrightarrow>
     Validate v = Inr (failure [ZodIssue (invalid_type ''object'' (getParsedType v)) []])"
  by (simp add: Validate_def safeParse_def ErrorSchema_not_plain)

lemma conforms_plain: "conforms v \<Longrightarrow> plain_object v"
  by (cases v) (simp_all add: conforms_def plain_object_def)

lemma Validate_accepts: "(\<exists>out. Validate v = Inr (success out)) = conforms v"
proof (cases "plain_object v")
  case True
  then obtain ps where v: "v = JObj ps" and n: "\<not> promise_like ps"
    using plain_object_JObj by blast
  show ?thesis
    using safeParse_plain [OF n] v
    by (cases "conforms (JObj ps)") (auto simp add: Validate_def)
next
  case False
  then show ?thesis
    using conforms_plain [of v] by (auto simp add: Validate_not_plain)
qed



lemma BaseErrorCode_value_registry: "BaseErrorCode_value c \<in> set ErrorCode_registry"
  by (cases c) (simp_all add: ErrorCode_registry_def)

lemma conforms_error_fields:
  "\<not> details_promise_like (details e) \<Longrightarrow> conforms (error_fields e)"
  by (cases "details e")
     (simp_all add: conforms_def error_fields_def code_ok_def message_ok_def details_ok_def
        js_get_def details_value_def BaseErrorCode_value_registry promise_like_def
        details_promise_like_def plain_object_def)

lemma Validate_TIMEOUT_example:
  "Validate (JObj [(''code'', JStr ''TIMEOUT''), (''message'', JStr ''deadline exceeded'')]) =
       Inr (success (JObj [(''code'', JStr ''TIMEOUT''),
                           (''message'', JStr ''deadline exceeded'')]))"
  by (simp add: Validate_def safeParse_def ErrorSchema_def describe_def z_object_def
        z_nativeEnum_def z_string_def z_optional_def js_get_def js_in_def js_set_def
        is_array_index_def promise_like_def
        BaseErrorCode_values_def BaseErrorCode_members_def)

lemma Validate_TIMEOUT_details_example:
  "Validate (JObj [(''code'', JStr ''TIMEOUT''), (''message'', JStr ''deadline exceeded''),
                      (''details'', JObj [(''retryAfterMs'', JNum False 500)])]) =
       Inr (success (JObj [(''code'', JStr ''TIMEOUT''),
                           (''message'', JStr ''deadline exceeded''),
                           (''details'', JObj [(''retryAfterMs'', JNum False 500)])]))"
  by (simp add: Validate_def safeParse_def ErrorSchema_def describe_def z_object_def
        z_nativeEnum_def z_string_def z_optional_def z_record_def z_unknown_def
        js_get_def js_in_def js_set_def is_array_index_def promise_like_def
        BaseErrorCode_values_def BaseErrorCode_members_def)




text \<open>
  Claim C2. \<open>Validate\<close> accepts a value exactly when it is a plain object (an ordinary
  object, not \<open>null\<close>, a primitive, an array or an instance of \<open>Map\<close>, \<open>Set\<close> or \<open>Date\<close>,
  that is not promise-like) whose \<open>code\<close> is one of the eleven strings of the registry,
  whose \<open>message\<close> is a string and whose \<open>details\<close>, when present, is a plain object
  too, whatever its keys hold. It accepts \<open>{code: "TIMEOUT", message: "deadline
  exceeded"}\<close>, and the same with \<open>details: {retryAfterMs: 500}\<close>.

  For every object, as the claim is worded, it fails: a counterexample follows the theorem.
\<close>

theorem Validate_accepts_iff:
  "(\<exists>out. Validate v = Inr (success out)) = conforms v
   \<and> Validate (JObj [(''code'', JStr ''TIMEOUT''), (''message'', JStr ''deadline exceeded'')]) =
       Inr (success (JObj [(''code'', JStr ''TIMEOUT''),
                           (''message'', JStr ''deadline exceeded'')]))
   \<and> Validate (JObj [(''code'', JStr ''TIMEOUT''), (''message'', JStr ''deadline exceeded''),
                      (''details'', JObj [(''retryAfterMs'', JNum False 500)])]) =
       Inr (success (JObj [(''code'', JStr ''TIMEOUT''),
                           (''message'', JStr ''deadline exceeded''),
                           (''details'', JObj [(''retryAfterMs'', JNum False 500)])]))"
  using Validate_accepts [of v] Validate_TIMEOUT_example Validate_TIMEOUT_details_example
  by blast

theorem Validate_accepts_iff_witness:
  "(\<exists>out. Validate (JObj [(''code'', JStr ''TIMEOUT''), (''message'', JStr ''deadline exceeded'')])
            = Inr (success out))
   \<and> conforms (JObj [(''code'', JStr ''TIMEOUT''), (''message'', JStr ''deadline exceeded'')])
   \<and> \<not> conforms (JObj [(''code'', JStr ''timeout''), (''message'', JStr ''deadline exceeded'')])
   \<and> (\<nexists>out. Validate (JObj [(''code'', JStr ''timeout''), (''message'', JStr ''deadline exceeded'')])
            = Inr (success out))
   \<and> \<not> conforms (JArr []) \<and> (\<nexists>out. Validate (JArr []) = Inr (success out))
   \<and> \<not> conforms JNull \<and> (\<nexists>out. Validate JNull = Inr (success out))"
  using Validate_accepts_iff [of "JObj [(''code'', JStr ''TIMEOUT''), (''message'', JStr ''deadline exceeded'')]"]
    Validate_accepts_iff [of "JObj [(''code'', JStr ''timeout''), (''message'', JStr ''deadline exceeded'')]"]
    Validate_accepts_iff [of "JArr []"] Validate_accepts_iff [of JNull]
  by (simp add: conforms_def code_ok_def message_ok_def details_ok_def js_get_def
      ErrorCode_registry_def promise_like_def)

text \<open>
  Three values of the shape that the claim states, which \<open>Validate\<close> refuses: an object
  with valid fields whose \<open>then\<close> and \<open>catch\<close> are functions is classified as a promise;
  an instance of \<open>Map\<close> with valid fields as a map; and details whose \<open>then\<close> and \<open>catch\<close>
  are functions as a promise, at the path \<open>details\<close>.
\<close>

theorem Validate_accepts_iff_counterexample:
  "shape_as_claimed
     (JObj [(''code'', JStr ''TIMEOUT''), (''message'', JStr ''deadline exceeded''),
            (''then'', JFunction (Returns JUndefined)),
            (''catch'', JFunction (Returns JUndefined))])
   \<and> Validate
       (JObj [(''code'', JStr ''TIMEOUT''), (''message'', JStr ''deadline exceeded''),
              (''then'', JFunction (Returns JUndefined)),
              (''catch'', JFunction (Returns JUndefined))]) =
     Inr (failure [ZodIssue (invalid_type ''object'' PT_promise) []])
   \<and> shape_as_claimed
       (JInstance Map_class
          [(''code'', JStr ''TIMEOUT''), (''message'', JStr ''deadline exceeded'')])
   \<and> Validate
       (JInstance Map_class
          [(''code'', JStr ''TIMEOUT''), (''message'', JStr ''deadline exceeded'')]) =
     Inr (failure [ZodIssue (invalid_type ''object'' PT_map) []])
   \<and> shape_as_claimed
       (JObj [(''code'', JStr ''TIMEOUT''), (''message'', JStr ''deadline exceeded''),
              (''details'', JObj [(''then'', JFunction (Returns JUndefined)),
                                  (''catch'', JFunction (Returns JUndefined))])])
   \<and> Validate
       (JObj [(''code'', JStr ''TIMEOUT''), (''message'', JStr ''deadline exceeded''),
              (''details'', JObj [(''then'', JFunction (Returns JUndefined)),
                                  (''catch'', JFunction (Returns JUndefined))])]) =
     Inr (failure [ZodIssue (invalid_type ''object'' PT_promise) [''details'']])"
  by (simp add: shape_as_claimed_def is_object_def code_ok_def message_ok_def
      details_mapping_def js_get_def js_in_def ErrorCode_registry_def Validate_def
      safeParse_def ErrorSchema_def describe_def z_object_def z_nativeEnum_def z_string_def
      z_optional_def z_record_def promise_like_def BaseErrorCode_values_def
      BaseErrorCode_members_def)

text \<open>
  Claim C4. For every error whose details are absent or not promise-like, the object
  \<open>{code, message, details}\<close> of its fields has the shape that the validator accepts, and
  \<open>Validate\<close> accepts it.

  For promise-like details the claim fails: a counterexample follows the theorem.
\<close>

theorem error_fields_validate:
  "\<not> details_promise_like (details e) \<longrightarrow>
     conforms (error_fields e) \<and> (\<exists>out. Validate (error_fields e) = Inr (success out))"
  using Validate_accepts [of "error_fields e"] by (simp add: conforms_error_fields)

theorem error_fields_validate_witness:
  "\<not> details_promise_like
        (details (McpError_constructor TIMEOUT ''deadline exceeded''
                    (Some [(''retryAfterMs'', JNum False 500)])))
   \<and> conforms (error_fields (McpError_constructor TIMEOUT ''deadline exceeded''
                    (Some [(''retryAfterMs'', JNum False 500)])))
   \<and> (\<exists>out. Validate (error_fields (McpError_constructor TIMEOUT ''deadline exceeded''
                    (Some [(''retryAfterMs'', JNum False 500)]))) = Inr (success out))
   \<and> \<not> details_promise_like (details (McpError_constructor NOT_FOUND ''missing widget'' None))
   \<and> (\<exists>out. Validate (error_fields (McpError_constructor NOT_FOUND ''missing widget'' None))
               = Inr (success out))"
  using error_fields_validate
      [of "McpError_constructor TIMEOUT ''deadline exceeded''
             (Some [(''retryAfterMs'', JNum False 500)])"]
    error_fields_validate [of "McpError_constructor NOT_FOUND ''missing widget'' None"]
  by (simp add: details_promise_like_def McpError_constructor_def promise_like_def js_get_def)

text \<open>
  An error whose details are \<open>{then: f, catch: g}\<close>, a mapping from strings to values:
  \<open>Validate\<close> refuses the object of its fields, with an issue at the path \<open>details\<close>.
\<close>

theorem error_fields_validate_counterexample:
  "Validate (error_fields (McpError_constructor TIMEOUT ''deadline exceeded''
       (Some [(''then'', JFunction (Returns JUndefined)),
              (''catch'', JFunction (Returns JUndefined))]))) =
     Inr (failure [ZodIssue (invalid_type ''object'' PT_promise) [''details'']])"
  by (simp add: error_fields_def details_value_def McpError_constructor_def
      Validate_def safeParse_def ErrorSchema_def describe_def z_object_def
      z_nativeEnum_def z_string_def z_optional_def z_record_def js_get_def js_in_def
      promise_like_def BaseErrorCode_values_def BaseErrorCode_members_def)







end
